theory Spec2Isabelle
  imports Main "HOL-Library.Sublist"
begin

section \<open>The background service of the recorder extension (background.ts)\<close>

text \<open>
  The module is event-driven orchestration between the host platform (chrome.*),
  the automation engine (crx, playwright) and the telemetry client (posthog).
  The module-level variables are the record \<open>vars\<close>; every call the module issues
  to one of its collaborators is appended to a log, so that "what the code did"
  is a value. A collaborator's answer (a resolved value, a rejection) is an
  argument of the function that receives it.
\<close>

subsection \<open>Modes\<close>

text \<open>
  Modelled from the spec: the type \<open>Mode\<close> is imported from
  \<open>@recorder/recorderTypes\<close>, which is not part of the sources at hand; its
  values are those the specification enumerates. \<open>CrxMode\<close> is declared in
  background.ts as \<open>Mode | 'detached'\<close>.
\<close>

datatype Mode =
    none | standby | recording | assertingText | assertingVisibility
  | assertingValue | assertingSnapshot | inspecting

datatype CrxMode = EngineMode Mode | detached

definition stoppedModes :: "CrxMode list" where
  "stoppedModes = [EngineMode none, EngineMode standby, detached]"

definition recordingModes :: "CrxMode list" where
  "recordingModes =
     [EngineMode recording, EngineMode assertingText, EngineMode assertingVisibility,
      EngineMode assertingValue, EngineMode assertingSnapshot]"

subsection \<open>Errors, tabs, telemetry events and the call log\<close>

datatype error =
    TypeError        \<comment> \<open>reading a property of \<open>undefined\<close>\<close>
  | HostError        \<comment> \<open>a rejected or throwing chrome.* call\<close>
  | EngineError      \<comment> \<open>a rejected or throwing engine call\<close>
  | TelemetryError   \<comment> \<open>posthog.capture threw; analytics.capture rethrows it\<close>

record Tab =
  tab_id :: "int option"
  windowId :: int
  url :: "string option"
  title :: "string option"
  incognito :: bool
  status :: "string option"
  index :: int

datatype event =
    recorder_attached int "Tab"
      \<comment> \<open>tabId and the tab the properties url, title, window_id, ... are read from\<close>
  | recorder_detached int string int
      \<comment> \<open>tabId, reason, session_duration\<close>

datatype call =
    SetTitle string int
  | SetBadgeText string int
  | SetBadgeTextColor string int
  | SetBadgeBackgroundColor string int
  | ActionDisable
  | ActionEnable
  | SidePanelOpen int
  | StorageSyncGet
  | CrxStart
  | AddListener string
  | SetTestIdAttribute "string option"
  | RecorderShow Mode "string option" string
  | CrxAttach int
  | RecorderSetMode Mode
  | CrxNewPage
  | TabsGet int
  | PosthogCapture event nat "CrxMode option" "string option"
      \<comment> \<open>the event with the enriched properties attached_tabs_count,
          current_mode and language\<close>

subsection \<open>Module state\<close>

text \<open>
  \<open>crxAppPromise\<close> holds a promise object, identified by the number it was given
  at creation. \<open>attachedTabIds\<close> is a JavaScript \<open>Set\<close>: a duplicate-free sequence
  in insertion order. \<open>tabAttachTimes\<close> is a \<open>Map\<close> from tab identifiers to
  instants (milliseconds, as \<open>Date.now()\<close> returns them).
\<close>

record vars =
  crxAppPromise :: "nat option"
  attachedTabIds :: "int list"
  currentMode :: "CrxMode option"
  language :: "string option"
  sidepanel :: bool
  lastModeChangeTime :: "int option"
  tabAttachTimes :: "int \<rightharpoonup> int"

record sys =
  vars :: vars
  calls :: "call list"
  promises :: nat   \<comment> \<open>how many session promises the module created so far\<close>

definition initial_vars :: vars where
  "initial_vars =
     \<lparr>crxAppPromise = None, attachedTabIds = [], currentMode = None, language = None,
      sidepanel = True, lastModeChangeTime = None, tabAttachTimes = Map.empty\<rparr>"

definition initial :: sys where
  "initial = \<lparr>vars = initial_vars, calls = [], promises = 0\<rparr>"

definition emit :: "call list \<Rightarrow> sys \<Rightarrow> sys" where
  "emit cs s = s\<lparr>calls := calls s @ cs\<rparr>"

definition set_add :: "int \<Rightarrow> int list \<Rightarrow> int list" where
  "set_add x xs = (if x \<in> set xs then xs else xs @ [x])"

definition set_delete :: "int \<Rightarrow> int list \<Rightarrow> int list" where
  "set_delete x xs = removeAll x xs"

definition falsy :: "string option \<Rightarrow> bool" where
  \<comment> \<open>\<open>!x\<close> for a value that is a string or \<open>undefined\<close>\<close>
  "falsy x = (case x of None \<Rightarrow> True | Some str \<Rightarrow> str = [])"

subsection \<open>changeAction\<close>

text \<open>
  Lines 98 to 102: the value of the local \<open>mode\<close> after the first conditional,
  together with the module variables as the conditional leaves them. A mode is
  a non-empty string, so \<open>!mode\<close> holds exactly when it is \<open>undefined\<close>.
\<close>

definition resolveMode :: "int \<Rightarrow> CrxMode option \<Rightarrow> vars \<Rightarrow> vars \<times> CrxMode option" where
  "resolveMode tabId mode v =
     (case mode of
        None \<Rightarrow> (v, if tabId \<in> set (attachedTabIds v) then currentMode v else Some detached)
      | Some m \<Rightarrow> (if m \<noteq> detached then v\<lparr>currentMode := Some m\<rparr> else v, Some m))"

text \<open>
  Lines 105 to 122. Both groups of host calls are issued through
  \<open>Promise.all(...).catch(() => {})\<close>: the calls are made in order and a
  rejection is discarded, so the function always returns.
\<close>

definition isStopped :: "CrxMode option \<Rightarrow> bool" where
  \<comment> \<open>\<open>!mode || stoppedModes.includes(mode)\<close>\<close>
  "isStopped mode = (case mode of None \<Rightarrow> True | Some m \<Rightarrow> m \<in> set stoppedModes)"

definition isRecording :: "CrxMode option \<Rightarrow> bool" where
  \<comment> \<open>\<open>recordingModes.includes(mode)\<close>\<close>
  "isRecording mode = (case mode of None \<Rightarrow> False | Some m \<Rightarrow> m \<in> set recordingModes)"

definition indicatorCalls :: "int \<Rightarrow> CrxMode option \<Rightarrow> call list" where
  "indicatorCalls tabId mode =
     (if isStopped mode then
        [SetTitle (if mode = Some (EngineMode none) then ''Stopped'' else ''Record'') tabId,
         SetBadgeText '''' tabId]
      else
        (let (text, title, color, bgColor) =
               (if isRecording mode
                then (''REC'', ''Recording'', ''white'', ''darkred'')
                else (''INS'', ''Inspecting'', ''white'', ''dodgerblue''))
         in [SetTitle title tabId, SetBadgeText text tabId,
             SetBadgeTextColor color tabId, SetBadgeBackgroundColor bgColor tabId]))"

definition changeAction :: "int \<Rightarrow> CrxMode option \<Rightarrow> sys \<Rightarrow> sys" where
  "changeAction tabId mode s =
     (let (v, mode') = resolveMode tabId mode (vars s)
      in emit (indicatorCalls tabId mode') (s\<lparr>vars := v\<rparr>))"

subsection \<open>The collaborators' answers\<close>

text \<open>
  What the host platform and the engine answer to the calls of one run: the
  persisted settings that \<open>chrome.storage.sync.get\<close> resolves with (or its
  rejection), and for each engine call whether it resolves (\<open>None\<close>) or rejects.
\<close>

record settings =
  testIdAttributeName :: "string option"
  targetLanguage :: "string option"

record env =
  storage_get :: "error + settings"
  crx_start :: "error option"
  recorder_isHidden :: bool
  recorder_show :: "error option"
  crx_attach :: "error option"
  recorder_setMode :: "error option"
  crx_newPage :: "error option"

subsection \<open>analytics.capture and the engine's attached and detached listeners\<close>

text \<open>
  Lines 54 to 74. \<open>ph\<close> is the answer of \<open>posthog.capture\<close>: when it throws,
  \<open>analytics.capture\<close> logs and rethrows.
\<close>

definition capture :: "event \<Rightarrow> error option \<Rightarrow> sys \<Rightarrow> sys \<times> (error + unit)" where
  "capture ev ph s =
     (case ph of
        Some err \<Rightarrow> (s, Inl err)
      | None \<Rightarrow>
          (emit [PosthogCapture ev (length (attachedTabIds (vars s)))
                   (currentMode (vars s)) (language (vars s))] s, Inr ()))"

text \<open>
  Lines 164 to 177. \<open>recorderMode\<close> is \<open>crxApp.recorder.mode\<close> and \<open>tabsGet\<close> the
  answer of \<open>chrome.tabs.get(tabId)\<close>. The listener reads no clock.
\<close>

definition onAttached ::
  "int \<Rightarrow> Mode \<Rightarrow> error + Tab \<Rightarrow> error option \<Rightarrow> sys \<Rightarrow> sys \<times> (error + unit)" where
  "onAttached tabId recorderMode tabsGet ph s =
     (let s1 = s\<lparr>vars := (vars s)\<lparr>attachedTabIds := set_add tabId (attachedTabIds (vars s))\<rparr>\<rparr>;
          s2 = changeAction tabId (Some (EngineMode recorderMode)) s1;
          s3 = emit [TabsGet tabId] s2
      in case tabsGet of
           Inl err \<Rightarrow> (s3, Inl err)
         | Inr currentTab \<Rightarrow> capture (recorder_attached tabId currentTab) ph s3)"

text \<open>
  Lines 178 to 187. \<open>now1\<close> and \<open>now2\<close> are the values of the two \<open>Date.now()\<close>
  in \<open>Date.now() - (tabAttachTimes.get(tabId) || Date.now())\<close>; the second is read
  only when the lookup is \<open>undefined\<close> or 0.
\<close>

definition session_duration :: "vars \<Rightarrow> int \<Rightarrow> int \<Rightarrow> int \<Rightarrow> int" where
  "session_duration v tabId now1 now2 =
     now1 - (case tabAttachTimes v tabId of
               None \<Rightarrow> now2
             | Some t \<Rightarrow> if t = 0 then now2 else t)"

definition onDetached ::
  "int \<Rightarrow> int \<Rightarrow> int \<Rightarrow> error option \<Rightarrow> sys \<Rightarrow> sys \<times> (error + unit)" where
  "onDetached tabId now1 now2 ph s =
     (let s1 = s\<lparr>vars := (vars s)\<lparr>attachedTabIds := set_delete tabId (attachedTabIds (vars s))\<rparr>\<rparr>;
          s2 = changeAction tabId (Some detached) s1
      in case capture (recorder_detached tabId ''user_initiated''
                         (session_duration (vars s2) tabId now1 now2)) ph s2 of
           (s3, Inl err) \<Rightarrow> (s3, Inl err)
         | (s3, Inr _) \<Rightarrow>
             (s3\<lparr>vars := (vars s3)\<lparr>tabAttachTimes := (tabAttachTimes (vars s3))(tabId := None)\<rparr>\<rparr>,
              Inr ()))"

subsection \<open>getCrxApp\<close>

text \<open>Line 234: \<open>playwright.selectors.setTestIdAttribute(testIdAttributeName)\<close>.\<close>

definition setTestIdAttributeName :: "string option \<Rightarrow> sys \<Rightarrow> sys" where
  "setTestIdAttributeName x s = emit [SetTestIdAttribute x] s"

text \<open>
  The function suspends at two points: at \<open>await chrome.storage.sync.get(...)\<close>
  (line 131) and at \<open>await crxAppPromise\<close> (line 197). Between two suspension
  points it runs without interruption; while it is suspended, other handlers run.
\<close>

datatype waiting = AwaitStorage | AwaitApp nat

text \<open>From the call to the first suspension: the test of line 130.\<close>

definition getCrxApp_enter :: "sys \<Rightarrow> sys \<times> waiting" where
  "getCrxApp_enter s =
     (case crxAppPromise (vars s) of
        None \<Rightarrow> (emit [StorageSyncGet] s, AwaitStorage)
      | Some p \<Rightarrow> (s, AwaitApp p))"

text \<open>
  From the settings read to the second suspension: line 133 calls \<open>crx.start()\<close>,
  creates the promise of its continuation and assigns it to \<open>crxAppPromise\<close>.
\<close>

definition getCrxApp_start :: "sys \<Rightarrow> sys \<times> nat" where
  "getCrxApp_start s =
     (let p = promises s
      in ((emit [CrxStart] s)\<lparr>vars := (vars s)\<lparr>crxAppPromise := Some p\<rparr>, promises := Suc p\<rparr>,
          p))"

text \<open>
  Lines 134 to 193: the continuation of \<open>crx.start()\<close>, with the settings read
  at line 131.
\<close>

definition onStarted :: "settings \<Rightarrow> sys \<Rightarrow> sys" where
  "onStarted st s =
     (let s1 = emit [AddListener ''hide'', AddListener ''modechanged'',
                     AddListener ''attached'', AddListener ''detached''] s;
          s2 = (if falsy (testIdAttributeName st)
                then setTestIdAttributeName (testIdAttributeName st) s1 else s1)
      in if falsy (language (vars s2)) \<and> \<not> falsy (targetLanguage st)
         then s2\<lparr>vars := (vars s2)\<lparr>language := targetLanguage st\<rparr>\<rparr> else s2)"

text \<open>
  One caller running alone: every awaited call settles before anything else
  happens. \<open>crx_start e\<close> says how the promise of \<open>crx.start()\<close> settles. The
  result is the handle the caller receives.
\<close>

definition getCrxApp :: "env \<Rightarrow> sys \<Rightarrow> sys \<times> (error + nat)" where
  "getCrxApp e s =
     (case getCrxApp_enter s of
        (s1, AwaitApp p) \<Rightarrow>
          (s1, case crx_start e of Some err \<Rightarrow> Inl err | None \<Rightarrow> Inr p)
      | (s1, AwaitStorage) \<Rightarrow>
          (case storage_get e of
             Inl err \<Rightarrow> (s1, Inl err)
           | Inr st \<Rightarrow>
               (let (s2, p) = getCrxApp_start s1
                in case crx_start e of
                     Some err \<Rightarrow> (s2, Inl err)
                   | None \<Rightarrow> (onStarted st s2, Inr p))))"

text \<open>
  Several callers: a schedule says in which order the calls are made and the
  settings reads resolve. Each caller is recorded with the point it waits at.
\<close>

datatype sched = Call nat | StorageResolved nat

fun step :: "sys \<times> (nat \<rightharpoonup> waiting) \<Rightarrow> sched \<Rightarrow> sys \<times> (nat \<rightharpoonup> waiting)" where
  "step (s, w) (Call c) = (let (s', k) = getCrxApp_enter s in (s', w(c \<mapsto> k)))"
| "step (s, w) (StorageResolved c) =
     (if w c = Some AwaitStorage
      then (let (s', p) = getCrxApp_start s in (s', w(c \<mapsto> AwaitApp p)))
      else (s, w))"

definition run :: "sched list \<Rightarrow> sys \<times> (nat \<rightharpoonup> waiting)" where
  "run sch = foldl step (initial, Map.empty) sch"

definition starts :: "sys \<Rightarrow> nat" where
  "starts s = length (filter (\<lambda>c. c = CrxStart) (calls s))"

subsection \<open>attach\<close>

text \<open>Lines 214 to 224: the body of the \<open>try\<close> block.\<close>

definition attach_try :: "env \<Rightarrow> int \<Rightarrow> Mode option \<Rightarrow> sys \<Rightarrow> sys \<times> (error + unit)" where
  "attach_try e tabId mode s =
     (let (s1, shown) =
            (if recorder_isHidden e
             then (emit [RecorderShow (case mode of None \<Rightarrow> recording | Some m \<Rightarrow> m)
                           (language (vars s))
                           (if sidepanel (vars s) then ''sidepanel'' else ''popup'')] s,
                   recorder_show e)
             else (s, None))
      in case shown of
           Some err \<Rightarrow> (s1, Inl err)
         | None \<Rightarrow>
             (let s2 = emit [CrxAttach tabId] s1
              in case crx_attach e of
                   Some err \<Rightarrow> (s2, Inl err)
                 | None \<Rightarrow>
                     (case mode of
                        None \<Rightarrow> (s2, Inr ())
                      | Some m \<Rightarrow>
                          (let s3 = emit [RecorderSetMode m] s2
                           in case recorder_setMode e of
                                Some err \<Rightarrow> (s3, Inl err)
                              | None \<Rightarrow> (s3, Inr ())))))"

text \<open>
  Lines 200 to 231. \<open>!tab?.id\<close> holds when the identifier is \<open>undefined\<close> or 0.
  The \<open>finally\<close> block runs after the \<open>try\<close> block and after the \<open>catch\<close> block,
  also when \<open>crxApp.newPage()\<close> rejects.
\<close>

definition attach :: "env \<Rightarrow> Tab \<Rightarrow> Mode option \<Rightarrow> sys \<Rightarrow> sys \<times> (error + unit)" where
  "attach e tab mode s =
     (case tab_id tab of
        None \<Rightarrow> (s, Inr ())
      | Some tabId \<Rightarrow>
          if tabId = 0 \<or> (tabId \<in> set (attachedTabIds (vars s)) \<and> mode = None)
          then (s, Inr ())
          else
            (let s1 = (if sidepanel (vars s) then emit [SidePanelOpen (windowId tab)] s else s);
                 s2 = emit [ActionDisable] s1
             in case getCrxApp e s2 of
                  (s3, Inl err) \<Rightarrow> (s3, Inl err)
                | (s3, Inr crxApp) \<Rightarrow>
                    (case attach_try e tabId mode s3 of
                       (s4, Inr _) \<Rightarrow> (emit [ActionEnable] s4, Inr ())
                     | (s4, Inl _) \<Rightarrow>
                         (let s5 = emit [CrxNewPage] s4
                          in case crx_newPage e of
                               Some err \<Rightarrow> (emit [ActionEnable] s5, Inl err)
                             | None \<Rightarrow> (emit [ActionEnable] s5, Inr ())))))"

text \<open>
  Whether the toolbar icon is enabled after a sequence of calls: the last of
  \<open>chrome.action.disable()\<close> and \<open>chrome.action.enable()\<close> decides; it is enabled
  before any of them.
\<close>

fun iconEnabled :: "call list \<Rightarrow> bool \<Rightarrow> bool" where
  "iconEnabled [] b = b"
| "iconEnabled (ActionDisable # cs) b = iconEnabled cs False"
| "iconEnabled (ActionEnable # cs) b = iconEnabled cs True"
| "iconEnabled (_ # cs) b = iconEnabled cs b"

subsection \<open>The settings listener\<close>

text \<open>
  Lines 256 to 263. A notification has an entry for each key that changed; an
  entry's \<open>newValue\<close> is \<open>undefined\<close> when the key was removed. The parameter is
  destructured, so a key without entry is \<open>undefined\<close>, and line 261 reads
  \<open>newValue\<close> of it without a test.
\<close>

datatype 'a StorageChange = StorageChange (oldValue: "'a option") (newValue: "'a option")

record changes =
  testIdAttributeName_change :: "string StorageChange option"
  targetLanguage_change :: "string StorageChange option"
  sidepanel_change :: "bool StorageChange option"

definition onChanged :: "changes \<Rightarrow> sys \<Rightarrow> sys \<times> (error + unit)" where
  "onChanged ch s =
     (let s1 = (case testIdAttributeName_change ch of
                  None \<Rightarrow> s
                | Some c \<Rightarrow> setTestIdAttributeName (newValue c) s);
          s2 = (case targetLanguage_change ch of
                  None \<Rightarrow> s1
                | Some c \<Rightarrow> s1\<lparr>vars := (vars s1)\<lparr>language := newValue c\<rparr>\<rparr>)
      in case sidepanel_change ch of
           None \<Rightarrow> (s2, Inl TypeError)
         | Some c \<Rightarrow>
             (case newValue c of
                None \<Rightarrow> (s2, Inr ())
              | Some b \<Rightarrow> (s2\<lparr>vars := (vars s2)\<lparr>sidepanel := b\<rparr>\<rparr>, Inr ())))"

subsection \<open>The cookie filter of saveStorageState\<close>

text \<open>
  Lines 337 to 354. A parsed URL is what \<open>new URL(s)\<close> gives; the filter reads
  its \<open>protocol\<close>, \<open>hostname\<close> and \<open>pathname\<close>. \<open>s.startsWith(p)\<close> is \<open>prefix p s\<close>
  and \<open>s.endsWith(p)\<close> is \<open>suffix p s\<close>.
\<close>

record URL =
  protocol :: string
  hostname :: string
  pathname :: string

record Cookie =
  cookie_name :: string
  cookie_value :: string
  domain :: string
  path :: string
  secure :: bool

text \<open>The \<open>for\<close> loop of lines 341 to 353, with its \<open>continue\<close> and \<open>return\<close>.\<close>

fun matchesSome :: "Cookie \<Rightarrow> URL list \<Rightarrow> bool" where
  "matchesSome c [] = False"
| "matchesSome c (parsedURL # rest) =
     (let d = (if \<not> prefix ''.'' (domain c) then ''.'' @ domain c else domain c)
      in if \<not> suffix d (''.'' @ hostname parsedURL) then matchesSome c rest
         else if \<not> prefix (path c) (pathname parsedURL) then matchesSome c rest
         else if protocol parsedURL \<noteq> ''https:'' \<and> hostname parsedURL \<noteq> ''localhost''
                 \<and> secure c then matchesSome c rest
         else True)"

definition filterCookies :: "URL list \<Rightarrow> Cookie list \<Rightarrow> Cookie list" where
  "filterCookies parsedURLs allCookies =
     filter (\<lambda>c. if parsedURLs = [] then True else matchesSome c parsedURLs) allCookies"

text \<open>
  The specification's wording of the filter, for comparison with the loop: a
  URL matches a cookie under domain suffix match with leading-dot
  normalization, path-prefix match, and the secure-cookie check.
\<close>

definition spec_normalize :: "string \<Rightarrow> string" where
  "spec_normalize d = (if prefix ''.'' d then d else ''.'' @ d)"

definition spec_matches :: "Cookie \<Rightarrow> URL \<Rightarrow> bool" where
  "spec_matches c u =
     (suffix (spec_normalize (domain c)) (''.'' @ hostname u) \<and>
      prefix (path c) (pathname u) \<and>
      (\<not> secure c \<or> protocol u = ''https:'' \<or> hostname u = ''localhost''))"

definition spec_retained :: "URL list \<Rightarrow> Cookie \<Rightarrow> bool" where
  "spec_retained urls c = list_ex (spec_matches c) urls"

subsection \<open>Concrete inputs\<close>

definition example_tab :: Tab where
  "example_tab =
     \<lparr>tab_id = Some 7, windowId = 1, url = Some ''https://example.com/app'',
      title = Some ''App'', incognito = False, status = Some ''complete'', index = 0\<rparr>"

definition persisted :: settings where
  "persisted = \<lparr>testIdAttributeName = Some ''data-test'', targetLanguage = Some ''python''\<rparr>"

definition env_ok :: env where
  "env_ok =
     \<lparr>storage_get = Inr persisted, crx_start = None, recorder_isHidden = True,
      recorder_show = None, crx_attach = None, recorder_setMode = None, crx_newPage = None\<rparr>"

definition env_start_fails :: env where
  "env_start_fails = env_ok\<lparr>crx_start := Some EngineError\<rparr>"

definition example_url :: URL where
  "example_url = \<lparr>protocol = ''https:'', hostname = ''example.com'', pathname = ''/app''\<rparr>"

definition cookie_root :: Cookie where
  "cookie_root =
     \<lparr>cookie_name = ''sid'', cookie_value = ''1'', domain = ''example.com'', path = ''/'',
      secure = True\<rparr>"

definition cookie_other :: Cookie where
  "cookie_other =
     \<lparr>cookie_name = ''sid'', cookie_value = ''2'', domain = ''other.com'', path = ''/'',
      secure = False\<rparr>"

definition cookie_admin :: Cookie where
  "cookie_admin =
     \<lparr>cookie_name = ''sid'', cookie_value = ''3'', domain = ''example.com'', path = ''/admin'',
      secure = False\<rparr>"

definition changes_without_sidepanel :: changes where
  "changes_without_sidepanel =
     \<lparr>testIdAttributeName_change = Some (StorageChange None (Some ''data-qa'')),
      targetLanguage_change = Some (StorageChange (Some ''python'') (Some ''java'')),
      sidepanel_change = None\<rparr>"

section \<open>Verified properties\<close>

subsection \<open>The toolbar indicator\<close>

lemma resolveMode_omitted:
  "resolveMode tabId None v =
     (v, if tabId \<in> set (attachedTabIds v) then currentMode v else Some detached)"
  by (simp add: resolveMode_def)

lemma indicatorCalls_stopped:
  "m \<in> set stoppedModes \<Longrightarrow>
   indicatorCalls tabId (Some m) =
     [SetTitle (if m = EngineMode none then ''Stopped'' else ''Record'') tabId,
      SetBadgeText '''' tabId]"
  by (simp add: indicatorCalls_def isStopped_def)

lemma changeAction_calls:
  "calls (changeAction tabId mode s) =
     calls s @ indicatorCalls tabId (snd (resolveMode tabId mode (vars s)))"
  by (simp add: changeAction_def emit_def split: prod.splits)

text \<open>
  C5. For a tab identifier that is not in \<open>attachedTabIds\<close>, \<open>changeAction\<close> without
  a mode resolves the mode to \<open>detached\<close> and clears the badge (title "Record",
  badge text empty) and does nothing else. Whenever the resolved mode is one of
  none, standby and detached, the calls issued are exactly a title and an empty
  badge text, the title being "Stopped" exactly when the mode is none and
  "Record" otherwise.
\<close>

theorem changeAction_clears_indicator:
  "(tabId \<notin> set (attachedTabIds (vars s)) \<longrightarrow>
      snd (resolveMode tabId None (vars s)) = Some detached \<and>
      changeAction tabId None s =
        s\<lparr>calls := calls s @ [SetTitle ''Record'' tabId, SetBadgeText '''' tabId]\<rparr>) \<and>
   (\<forall>m \<in> {EngineMode none, EngineMode standby, detached}.
      snd (resolveMode tabId mode (vars s)) = Some m \<longrightarrow>
      calls (changeAction tabId mode s) =
        calls s @ [SetTitle (if m = EngineMode none then ''Stopped'' else ''Record'') tabId,
                   SetBadgeText '''' tabId])"
proof (intro conjI impI ballI)
  assume out: "tabId \<notin> set (attachedTabIds (vars s))"
  then show "snd (resolveMode tabId None (vars s)) = Some detached"
    by (simp add: resolveMode_omitted)
  from out show "changeAction tabId None s =
      s\<lparr>calls := calls s @ [SetTitle ''Record'' tabId, SetBadgeText '''' tabId]\<rparr>"
    by (simp add: changeAction_def resolveMode_omitted indicatorCalls_def emit_def
        isStopped_def stoppedModes_def)
next
  fix m
  assume "m \<in> {EngineMode none, EngineMode standby, detached}"
    and res: "snd (resolveMode tabId mode (vars s)) = Some m"
  then have "m \<in> set stoppedModes"
    by (auto simp: stoppedModes_def)
  then show "calls (changeAction tabId mode s) =
      calls s @ [SetTitle (if m = EngineMode none then ''Stopped'' else ''Record'') tabId,
                 SetBadgeText '''' tabId]"
    by (simp only: changeAction_calls res indicatorCalls_stopped)
qed

theorem changeAction_clears_indicator_witness:
  "(5::int) \<notin> set (attachedTabIds (vars initial)) \<and>
   snd (resolveMode 5 None (vars initial)) = Some detached \<and>
   changeAction 5 None initial =
     initial\<lparr>calls := [SetTitle ''Record'' 5, SetBadgeText '''' 5]\<rparr> \<and>
   EngineMode none \<in> {EngineMode none, EngineMode standby, detached} \<and>
   snd (resolveMode 5 (Some (EngineMode none)) (vars initial)) = Some (EngineMode none) \<and>
   calls (changeAction 5 (Some (EngineMode none)) initial) =
     [SetTitle ''Stopped'' 5, SetBadgeText '''' 5]"
  using changeAction_clears_indicator [of 5 initial "Some (EngineMode none)"]
  by (simp add: initial_def initial_vars_def resolveMode_def)

text \<open>
  C6. With an explicit mode, \<open>changeAction\<close> leaves every module variable as it
  was, except that \<open>currentMode\<close> becomes the given mode when that mode is not
  \<open>detached\<close>; with \<open>detached\<close> the variables are unchanged altogether. Beyond
  the variables the call only issues the indicator's host calls.
\<close>

theorem changeAction_explicit_frame:
  "changeAction tabId (Some m) s =
     s\<lparr>vars := (if m = detached then vars s else (vars s)\<lparr>currentMode := Some m\<rparr>),
       calls := calls s @ indicatorCalls tabId (Some m)\<rparr>"
  by (simp add: changeAction_def resolveMode_def emit_def)

theorem changeAction_explicit_frame_witness:
  "vars (changeAction 5 (Some detached) initial) = vars initial \<and>
   vars (changeAction 5 (Some (EngineMode inspecting)) initial) =
     (vars initial)\<lparr>currentMode := Some (EngineMode inspecting)\<rparr>"
  using changeAction_explicit_frame [of 5 detached initial]
    changeAction_explicit_frame [of 5 "EngineMode inspecting" initial]
  by simp

subsection \<open>The cookie filter\<close>

text \<open>The loop finds a URL exactly when some URL of the list matches the cookie.\<close>

lemma matchesSome_spec: "matchesSome c urls = list_ex (spec_matches c) urls"
  by (induction urls) (auto simp: spec_matches_def spec_normalize_def Let_def)

text \<open>
  C7, as amended. When at least one URL was collected, the filter keeps exactly
  the cookies that some URL matches (domain suffix match with leading-dot
  normalization, path-prefix match of the URL's pathname against the cookie's
  path, and for a secure cookie the https: protocol or the hostname localhost),
  in their order. Against the URL https://example.com/app the cookie with
  domain example.com, path / and secure set is kept, every cookie with domain
  other.com is dropped, and the cookie with domain example.com and path /admin
  is dropped.
\<close>

theorem filterCookies_matches_spec:
  "(parsedURLs \<noteq> [] \<longrightarrow>
      filterCookies parsedURLs allCookies =
        filter (\<lambda>c. \<exists>u \<in> set parsedURLs. spec_matches c u) allCookies) \<and>
   filterCookies [example_url] [cookie_root] = [cookie_root] \<and>
   (\<forall>c. domain c = ''other.com'' \<longrightarrow> filterCookies [example_url] [c] = []) \<and>
   filterCookies [example_url] [cookie_admin] = []"
proof (intro conjI impI allI)
  assume "parsedURLs \<noteq> []"
  then show "filterCookies parsedURLs allCookies =
      filter (\<lambda>c. \<exists>u \<in> set parsedURLs. spec_matches c u) allCookies"
    by (simp add: filterCookies_def matchesSome_spec list_ex_iff)
next
  show "filterCookies [example_url] [cookie_root] = [cookie_root]"
    by (simp add: filterCookies_def example_url_def cookie_root_def suffix_def)
next
  fix c :: Cookie assume "domain c = ''other.com''"
  then show "filterCookies [example_url] [c] = []"
    by (simp add: filterCookies_def example_url_def suffix_def)
next
  show "filterCookies [example_url] [cookie_admin] = []"
    by (simp add: filterCookies_def example_url_def cookie_admin_def)
qed

theorem filterCookies_matches_spec_witness:
  "[example_url] \<noteq> [] \<and>
   filterCookies [example_url] [cookie_root, cookie_other, cookie_admin] = [cookie_root] \<and>
   domain cookie_other = ''other.com'' \<and> filterCookies [example_url] [cookie_other] = []"
  using filterCookies_matches_spec [of "[example_url]" "[cookie_root, cookie_other, cookie_admin]"]
  by (simp add: spec_matches_def spec_normalize_def example_url_def cookie_root_def
      cookie_other_def cookie_admin_def suffix_def)

text \<open>
  C7 as stated fails when no URL was collected: the cookie for other.com is kept
  although no URL matches it.
\<close>

theorem cookie_kept_without_urls_counterexample:
  "cookie_other \<in> set (filterCookies [] [cookie_other]) \<and> \<not> spec_retained [] cookie_other"
  by (simp add: filterCookies_def spec_retained_def)

text \<open>
  C9. When the list of collected URLs is empty, the filter returns the cookies
  unchanged: none is dropped.
\<close>

theorem filterCookies_empty_urls_keeps_all: "filterCookies [] allCookies = allCookies"
  by (simp add: filterCookies_def)

theorem filterCookies_empty_urls_keeps_all_witness:
  "filterCookies [] [cookie_root, cookie_other, cookie_admin] =
     [cookie_root, cookie_other, cookie_admin]"
  using filterCookies_empty_urls_keeps_all [of "[cookie_root, cookie_other, cookie_admin]"] by simp

subsection \<open>The attach flow\<close>

lemma changeAction_attachedTabIds:
  "attachedTabIds (vars (changeAction tabId mode s)) = attachedTabIds (vars s)"
  by (simp add: changeAction_def resolveMode_def emit_def split: option.splits)

lemma capture_vars: "vars (fst (capture ev ph s)) = vars s"
  by (simp add: capture_def emit_def split: option.splits)

lemma onAttached_attachedTabIds:
  "attachedTabIds (vars (fst (onAttached tabId m tg ph s))) =
     set_add tabId (attachedTabIds (vars s))"
  by (simp add: onAttached_def Let_def capture_vars changeAction_attachedTabIds emit_def
      split: sum.splits)

lemma set_add_member: "x \<in> set (set_add x xs)"
  by (simp add: set_add_def)

text \<open>
  C8. \<open>attach\<close> on a tab without identifier (with or without a mode), or without
  a mode on a tab that is in \<open>attachedTabIds\<close>, returns at once: the module
  variables and the log of calls are as before, so no side panel was opened, the
  icon was not disabled and the engine was not called. Hence, once the engine
  has reported the tab of a first call attached, a second call without a mode
  changes nothing.
\<close>

theorem attach_noop:
  "(tab_id tab = None \<or>
    (\<exists>tabId. tab_id tab = Some tabId \<and> tabId \<in> set (attachedTabIds (vars s)) \<and> mode = None)
      \<longrightarrow> attach e tab mode s = (s, Inr ())) \<and>
   (tab_id tab = Some tabId \<longrightarrow>
      (let s1 = fst (attach e tab None s);
           s2 = fst (onAttached tabId m tabsGet ph s1)
       in attach e' tab None s2 = (s2, Inr ())))"
proof (intro conjI impI)
  assume "tab_id tab = None \<or>
    (\<exists>tabId. tab_id tab = Some tabId \<and> tabId \<in> set (attachedTabIds (vars s)) \<and> mode = None)"
  then show "attach e tab mode s = (s, Inr ())"
    by (auto simp: attach_def)
next
  assume t: "tab_id tab = Some tabId"
  define s2 where "s2 = fst (onAttached tabId m tabsGet ph (fst (attach e tab None s)))"
  have "tabId \<in> set (attachedTabIds (vars s2))"
    by (simp add: s2_def onAttached_attachedTabIds set_add_member)
  with t have "attach e' tab None s2 = (s2, Inr ())"
    by (simp add: attach_def)
  then show "let s1 = fst (attach e tab None s);
                 s2 = fst (onAttached tabId m tabsGet ph s1)
             in attach e' tab None s2 = (s2, Inr ())"
    by (simp add: s2_def Let_def)
qed

theorem attach_noop_witness:
  "tab_id example_tab = Some 7 \<and>
   7 \<in> set (attachedTabIds (vars (fst (onAttached 7 recording (Inr example_tab) None initial)))) \<and>
   attach env_ok example_tab None (fst (onAttached 7 recording (Inr example_tab) None initial)) =
     (fst (onAttached 7 recording (Inr example_tab) None initial), Inr ()) \<and>
   attach env_ok (example_tab\<lparr>tab_id := None\<rparr>) (Some inspecting) initial = (initial, Inr ()) \<and>
   (let s1 = fst (attach env_ok example_tab None initial);
        s2 = fst (onAttached 7 recording (Inr example_tab) None s1)
    in attach env_ok example_tab None s2 = (s2, Inr ()))"
  using attach_noop [of example_tab "fst (onAttached 7 recording (Inr example_tab) None initial)"
      None env_ok 7 recording "Inr example_tab" None env_ok]
    attach_noop [of "example_tab\<lparr>tab_id := None\<rparr>" initial "Some inspecting" env_ok 7]
    attach_noop [of example_tab initial None env_ok 7 recording "Inr example_tab" None env_ok]
  by (simp add: example_tab_def onAttached_attachedTabIds set_add_member)

text \<open>
  The \<open>finally\<close> block: once \<open>getCrxApp\<close> has returned the session, the icon is
  enabled when \<open>attach\<close> ends, whatever the engine answers afterwards. When
  \<open>getCrxApp\<close> fails, the icon is left disabled: line 211 is outside the \<open>try\<close>.
\<close>

lemma iconEnabled_append_enable: "iconEnabled (cs @ [ActionEnable]) b"
  by (induction cs b rule: iconEnabled.induct) simp_all

lemma iconEnabled_append_other:
  "c \<noteq> ActionEnable \<Longrightarrow> c \<noteq> ActionDisable \<Longrightarrow> iconEnabled (cs @ [c]) b = iconEnabled cs b"
  by (induction cs b rule: iconEnabled.induct) (cases c; simp)+

lemma iconEnabled_append_disable: "\<not> iconEnabled (cs @ [ActionDisable]) b"
  by (induction cs b rule: iconEnabled.induct) simp_all

lemma iconEnabled_append_enable2: "iconEnabled (cs @ [c, ActionEnable]) b"
  using iconEnabled_append_enable [of "cs @ [c]" b] by simp

lemma attach_reenables_icon:
  assumes "tab_id tab = Some tabId" "tabId \<noteq> 0"
    "tabId \<notin> set (attachedTabIds (vars s)) \<or> mode \<noteq> None"
    "snd (getCrxApp e (emit [ActionDisable]
            (if sidepanel (vars s) then emit [SidePanelOpen (windowId tab)] s else s))) = Inr p"
  shows "iconEnabled (calls (fst (attach e tab mode s))) b"
proof -
  let ?s2 = "emit [ActionDisable]
            (if sidepanel (vars s) then emit [SidePanelOpen (windowId tab)] s else s)"
  obtain s3 where g: "getCrxApp e ?s2 = (s3, Inr p)"
    using assms(4) by (cases "getCrxApp e ?s2") auto
  obtain s4 r where t: "attach_try e tabId mode s3 = (s4, r)"
    by (cases "attach_try e tabId mode s3") auto
  have "calls (fst (attach e tab mode s)) = calls s4 @ [ActionEnable] \<or>
        calls (fst (attach e tab mode s)) = calls s4 @ [CrxNewPage, ActionEnable]"
    using assms(1-3) g t
    by (cases r; cases "crx_newPage e") (auto simp: attach_def Let_def emit_def)
  then show ?thesis
    by (auto simp: iconEnabled_append_enable iconEnabled_append_enable2)
qed

lemma getCrxApp_failure_calls:
  "getCrxApp e s = (s', Inl err) \<Longrightarrow>
   calls s' = calls s \<or> calls s' = calls s @ [StorageSyncGet] \<or>
   calls s' = calls s @ [StorageSyncGet, CrxStart]"
  by (auto simp: getCrxApp_def getCrxApp_enter_def getCrxApp_start_def emit_def Let_def
      split: option.splits sum.splits prod.splits waiting.splits)

lemma attach_leaves_icon_disabled:
  assumes "tab_id tab = Some tabId" "tabId \<noteq> 0"
    "tabId \<notin> set (attachedTabIds (vars s)) \<or> mode \<noteq> None"
    "snd (getCrxApp e (emit [ActionDisable]
            (if sidepanel (vars s) then emit [SidePanelOpen (windowId tab)] s else s))) = Inl err"
  shows "\<not> iconEnabled (calls (fst (attach e tab mode s))) b"
proof -
  let ?s2 = "emit [ActionDisable]
            (if sidepanel (vars s) then emit [SidePanelOpen (windowId tab)] s else s)"
  obtain s3 where g: "getCrxApp e ?s2 = (s3, Inl err)"
    using assms(4) by (cases "getCrxApp e ?s2") auto
  have a: "fst (attach e tab mode s) = s3"
    using assms(1-3) g by (auto simp: attach_def Let_def)
  have d: "\<not> iconEnabled (calls ?s2) b"
    by (simp add: emit_def iconEnabled_append_disable)
  from getCrxApp_failure_calls [OF g]
  have "\<not> iconEnabled (calls s3) b"
  proof (elim disjE)
    assume "calls s3 = calls ?s2" with d show ?thesis by simp
  next
    assume "calls s3 = calls ?s2 @ [StorageSyncGet]"
    with d show ?thesis by (simp add: iconEnabled_append_other)
  next
    assume "calls s3 = calls ?s2 @ [StorageSyncGet, CrxStart]"
    then have "calls s3 = (calls ?s2 @ [StorageSyncGet]) @ [CrxStart]" by simp
    with d show ?thesis by (simp only: iconEnabled_append_other call.distinct not_False_eq_True)
  qed
  with a show ?thesis by simp
qed

text \<open>
  C3 (the code departs from it). The claim: whenever \<open>attach\<close> gets past its
  guard, the toolbar icon is enabled again at the end, also when obtaining the
  session throws. Evaluated on a tab with identifier 7 that is not attached, no
  mode, and an engine whose start is rejected: \<open>attach\<close> ends with that error
  after \<open>chrome.action.disable()\<close>, without any \<open>chrome.action.enable()\<close>.
\<close>

theorem attach_failed_start_keeps_icon_disabled:
  "snd (attach env_start_fails example_tab None initial) = Inl EngineError \<and>
   calls (fst (attach env_start_fails example_tab None initial)) =
     [SidePanelOpen 1, ActionDisable, StorageSyncGet, CrxStart] \<and>
   \<not> iconEnabled (calls (fst (attach env_start_fails example_tab None initial))) True"
  by (simp add: attach_def getCrxApp_def getCrxApp_enter_def getCrxApp_start_def emit_def
      env_start_fails_def env_ok_def example_tab_def initial_def initial_vars_def)

subsection \<open>Session creation\<close>

text \<open>
  What the continuation of \<open>crx.start()\<close> does with the persisted settings: the
  selector attribute is passed on exactly when the persisted value is absent or
  empty (the test of line 188 is negated), and the language is adopted when none
  is set and a non-empty one is persisted.
\<close>

lemma onStarted_selector_only_when_falsy:
  "calls (onStarted st s) =
     calls s @ [AddListener ''hide'', AddListener ''modechanged'',
                AddListener ''attached'', AddListener ''detached''] @
     (if falsy (testIdAttributeName st) then [SetTestIdAttribute (testIdAttributeName st)] else [])"
  by (simp add: onStarted_def Let_def emit_def setTestIdAttributeName_def)

lemma onStarted_language:
  "language (vars (onStarted st s)) =
     (if falsy (language (vars s)) \<and> \<not> falsy (targetLanguage st)
      then targetLanguage st else language (vars s))"
  by (simp add: onStarted_def Let_def emit_def setTestIdAttributeName_def)

text \<open>
  C4 (the code departs from it). The claim: a persisted \<open>testIdAttributeName\<close> is
  applied to the engine's selector configuration during session creation, and a
  persisted target language is adopted when none is set. Evaluated with the
  persisted values data-test and python: the session is created without any
  call of \<open>setTestIdAttribute\<close>, whereas without a persisted selector attribute
  \<open>setTestIdAttribute(undefined)\<close> is called. The language is adopted.
\<close>

theorem getCrxApp_ignores_persisted_selector:
  "testIdAttributeName persisted = Some ''data-test'' \<and>
   snd (getCrxApp env_ok initial) = Inr 0 \<and>
   calls (fst (getCrxApp env_ok initial)) =
     [StorageSyncGet, CrxStart, AddListener ''hide'', AddListener ''modechanged'',
      AddListener ''attached'', AddListener ''detached''] \<and>
   SetTestIdAttribute (Some ''data-test'') \<notin> set (calls (fst (getCrxApp env_ok initial))) \<and>
   calls (fst (getCrxApp (env_ok\<lparr>storage_get := Inr (persisted\<lparr>testIdAttributeName := None\<rparr>)\<rparr>)
                 initial)) =
     [StorageSyncGet, CrxStart, AddListener ''hide'', AddListener ''modechanged'',
      AddListener ''attached'', AddListener ''detached'', SetTestIdAttribute None] \<and>
   language (vars (fst (getCrxApp env_ok initial))) = Some ''python''"
  by (simp add: getCrxApp_def getCrxApp_enter_def getCrxApp_start_def onStarted_def
      setTestIdAttributeName_def falsy_def emit_def env_ok_def persisted_def initial_def
      initial_vars_def)

text \<open>
  Once \<open>crxAppPromise\<close> is assigned, a caller receives it without a further
  settings read or engine start; and callers that come one after the other
  share one promise and one start.
\<close>

lemma getCrxApp_memoized:
  "crxAppPromise (vars s) = Some p \<Longrightarrow> getCrxApp_enter s = (s, AwaitApp p)"
  by (simp add: getCrxApp_enter_def)

lemma getCrxApp_sequential_callers_share:
  "starts (fst (run [Call 0, StorageResolved 0, Call 1])) = 1 \<and>
   snd (run [Call 0, StorageResolved 0, Call 1]) 0 = Some (AwaitApp 0) \<and>
   snd (run [Call 0, StorageResolved 0, Call 1]) 1 = Some (AwaitApp 0)"
  by (simp add: run_def initial_def initial_vars_def getCrxApp_enter_def getCrxApp_start_def
      emit_def starts_def)

text \<open>
  C1 (the code departs from it). The claim: callers that request the session
  before the first creation has resolved all receive the same handle, and the
  start sequence runs once. Evaluated with two callers, the second calling
  before the settings read of the first has resolved: \<open>crxAppPromise\<close> is still
  unassigned at the second test of line 130, so the settings are read twice,
  \<open>crx.start()\<close> is called twice, and the callers wait for two different promises.
\<close>

theorem getCrxApp_concurrent_callers_start_twice:
  "starts (fst (run [Call 0, Call 1, StorageResolved 0, StorageResolved 1])) = 2 \<and>
   snd (run [Call 0, Call 1, StorageResolved 0, StorageResolved 1]) 0 = Some (AwaitApp 0) \<and>
   snd (run [Call 0, Call 1, StorageResolved 0, StorageResolved 1]) 1 = Some (AwaitApp 1) \<and>
   calls (fst (run [Call 0, Call 1, StorageResolved 0, StorageResolved 1])) =
     [StorageSyncGet, StorageSyncGet, CrxStart, CrxStart]"
  by (simp add: run_def initial_def initial_vars_def getCrxApp_enter_def getCrxApp_start_def
      emit_def starts_def)

subsection \<open>Attach timestamps\<close>

text \<open>
  The attached listener leaves \<open>tabAttachTimes\<close> as it was, so a tab that had no
  entry has none when it is detached, and the duration is the difference of
  the two clock readings of line 184.
\<close>

lemma changeAction_tabAttachTimes:
  "tabAttachTimes (vars (changeAction tabId mode s)) = tabAttachTimes (vars s)"
  by (simp add: changeAction_def resolveMode_def emit_def split: option.splits)

lemma onAttached_records_no_time:
  "tabAttachTimes (vars (fst (onAttached tabId m tg ph s))) = tabAttachTimes (vars s)"
  by (simp add: onAttached_def Let_def capture_vars changeAction_tabAttachTimes emit_def
      split: sum.splits)

lemma session_duration_unrecorded:
  "tabAttachTimes v tabId = None \<Longrightarrow> session_duration v tabId now1 now2 = now1 - now2"
  by (simp add: session_duration_def)

text \<open>
  C2 (the code departs from it). The claim: the attached listener records the
  current time under the tab, and the detached event carries the time elapsed
  since then. Evaluated for tab 7, reported attached and then, at instant 5000,
  detached: after the attached listener there is no entry for tab 7, and the
  detached event carries the duration 0.
\<close>

theorem detached_duration_is_zero:
  "tabAttachTimes (vars (fst (onAttached 7 recording (Inr example_tab) None initial))) 7 = None \<and>
   snd (onDetached 7 5000 5000 None
          (fst (onAttached 7 recording (Inr example_tab) None initial))) = Inr () \<and>
   last (calls (fst (onDetached 7 5000 5000 None
          (fst (onAttached 7 recording (Inr example_tab) None initial))))) =
     PosthogCapture (recorder_detached 7 ''user_initiated'' 0) 0
       (Some (EngineMode recording)) None"
  by (simp add: onDetached_def onAttached_def capture_def changeAction_def resolveMode_def
      indicatorCalls_def isStopped_def isRecording_def stoppedModes_def recordingModes_def
      session_duration_def set_add_def set_delete_def emit_def initial_def initial_vars_def
      Let_def)

subsection \<open>The settings listener\<close>

text \<open>
  C10. On a notification without an entry for \<open>sidepanel\<close> the listener ends
  with a TypeError, after it has passed on the new selector attribute and
  stored the new language of the same notification; nothing else changes. The
  \<open>sidepanel\<close> flag changes, and the listener returns normally, only when the
  notification has a \<open>sidepanel\<close> entry.
\<close>

theorem onChanged_without_sidepanel:
  "(sidepanel_change ch = None \<longrightarrow>
      onChanged ch s =
        (s\<lparr>vars := (vars s)\<lparr>language :=
              (case targetLanguage_change ch of
                 None \<Rightarrow> language (vars s) | Some c \<Rightarrow> newValue c)\<rparr>,
           calls := calls s @
              (case testIdAttributeName_change ch of
                 None \<Rightarrow> [] | Some c \<Rightarrow> [SetTestIdAttribute (newValue c)])\<rparr>,
         Inl TypeError)) \<and>
   (sidepanel (vars (fst (onChanged ch s))) \<noteq> sidepanel (vars s) \<longrightarrow>
      sidepanel_change ch \<noteq> None) \<and>
   (snd (onChanged ch s) = Inr () \<longrightarrow> sidepanel_change ch \<noteq> None)"
  by (auto simp: onChanged_def Let_def setTestIdAttributeName_def emit_def
      split: option.splits)

theorem onChanged_without_sidepanel_witness:
  "sidepanel_change changes_without_sidepanel = None \<and>
   onChanged changes_without_sidepanel initial =
     (initial\<lparr>vars := (vars initial)\<lparr>language := Some ''java''\<rparr>,
              calls := [SetTestIdAttribute (Some ''data-qa'')]\<rparr>,
      Inl TypeError)"
  using onChanged_without_sidepanel [of changes_without_sidepanel initial]
  by (simp add: changes_without_sidepanel_def initial_def)

end
